theory Spec2Isabelle
  imports Complex_Main
begin

section \<open>JavaScript numbers and values\<close>

text \<open>
  The engine of TariffTax IQ (\<^verbatim>\<open>frontend/src/utils/calculations.js\<close>) computes on
  JavaScript numbers. A number is modelled as a real, or one of the three special values
  of IEEE 754 that the arithmetic of the engine can produce: \<open>Infinity\<close>, \<open>-Infinity\<close>
  and \<open>NaN\<close>. The operations of this section are exact on finite numbers: they
  give the engine over the reals, without the rounding, overflow and underflow of doubles.
  The section on double precision adds the rounding, and the engine is given in both
  arithmetics. The two zeros are identified; a zero divisor is read as
  \<open>+0\<close>, which is the only zero the divisors of the engine can be: \<open>1 + m / 100\<close> and
  \<open>supply + Math.abs(demand)\<close> are sums, and an IEEE sum is \<open>-0\<close> only when both
  summands are; the future price divides only when it is above 0; the retail price of
  the calculator is \<^verbatim>\<open>parseFloat(...) || 0\<close>, which replaces \<open>-0\<close> by \<open>0\<close>.
\<close>

datatype jsnum = Fin real | PosInf | NegInf | NaN

fun num_neg :: "jsnum \<Rightarrow> jsnum" where
  "num_neg (Fin a) = Fin (- a)"
| "num_neg PosInf = NegInf"
| "num_neg NegInf = PosInf"
| "num_neg NaN = NaN"

fun num_abs :: "jsnum \<Rightarrow> jsnum" where
  "num_abs (Fin a) = Fin \<bar>a\<bar>"
| "num_abs PosInf = PosInf"
| "num_abs NegInf = PosInf"
| "num_abs NaN = NaN"

fun num_add :: "jsnum \<Rightarrow> jsnum \<Rightarrow> jsnum" where
  "num_add (Fin a) (Fin b) = Fin (a + b)"
| "num_add NaN _ = NaN"
| "num_add _ NaN = NaN"
| "num_add PosInf NegInf = NaN"
| "num_add NegInf PosInf = NaN"
| "num_add PosInf _ = PosInf"
| "num_add _ PosInf = PosInf"
| "num_add NegInf _ = NegInf"
| "num_add _ NegInf = NegInf"

definition num_sub :: "jsnum \<Rightarrow> jsnum \<Rightarrow> jsnum" where
  "num_sub a b = num_add a (num_neg b)"

text \<open>The infinity of a given sign: \<open>True\<close> for a positive result.\<close>

definition signed_inf :: "bool \<Rightarrow> jsnum" where
  "signed_inf positive = (if positive then PosInf else NegInf)"

fun num_mul :: "jsnum \<Rightarrow> jsnum \<Rightarrow> jsnum" where
  "num_mul (Fin a) (Fin b) = Fin (a * b)"
| "num_mul NaN _ = NaN"
| "num_mul _ NaN = NaN"
| "num_mul (Fin a) PosInf = (if a = 0 then NaN else signed_inf (0 < a))"
| "num_mul (Fin a) NegInf = (if a = 0 then NaN else signed_inf (a < 0))"
| "num_mul PosInf (Fin b) = (if b = 0 then NaN else signed_inf (0 < b))"
| "num_mul NegInf (Fin b) = (if b = 0 then NaN else signed_inf (b < 0))"
| "num_mul PosInf PosInf = PosInf"
| "num_mul NegInf NegInf = PosInf"
| "num_mul PosInf NegInf = NegInf"
| "num_mul NegInf PosInf = NegInf"

fun num_div :: "jsnum \<Rightarrow> jsnum \<Rightarrow> jsnum" where
  "num_div (Fin a) (Fin b) =
     (if b = 0 then (if a = 0 then NaN else signed_inf (0 < a)) else Fin (a / b))"
| "num_div NaN _ = NaN"
| "num_div _ NaN = NaN"
| "num_div (Fin a) PosInf = Fin 0"
| "num_div (Fin a) NegInf = Fin 0"
| "num_div PosInf (Fin b) = signed_inf (0 \<le> b)"
| "num_div NegInf (Fin b) = signed_inf (b < 0)"
| "num_div PosInf PosInf = NaN"
| "num_div PosInf NegInf = NaN"
| "num_div NegInf PosInf = NaN"
| "num_div NegInf NegInf = NaN"

text \<open>Comparisons: every comparison with \<open>NaN\<close> is false.\<close>

fun num_lt :: "jsnum \<Rightarrow> jsnum \<Rightarrow> bool" where
  "num_lt (Fin a) (Fin b) = (a < b)"
| "num_lt NaN _ = False"
| "num_lt _ NaN = False"
| "num_lt _ NegInf = False"
| "num_lt PosInf _ = False"
| "num_lt NegInf _ = True"
| "num_lt _ PosInf = True"

fun num_le :: "jsnum \<Rightarrow> jsnum \<Rightarrow> bool" where
  "num_le (Fin a) (Fin b) = (a \<le> b)"
| "num_le NaN _ = False"
| "num_le _ NaN = False"
| "num_le NegInf _ = True"
| "num_le _ PosInf = True"
| "num_le _ NegInf = False"
| "num_le PosInf _ = False"

text \<open>\<^verbatim>\<open>Math.max\<close> and \<^verbatim>\<open>Math.min\<close> of two numbers: \<open>NaN\<close> when either is.\<close>

fun num_max :: "jsnum \<Rightarrow> jsnum \<Rightarrow> jsnum" where
  "num_max NaN _ = NaN"
| "num_max _ NaN = NaN"
| "num_max a b = (if num_lt a b then b else a)"

fun num_min :: "jsnum \<Rightarrow> jsnum \<Rightarrow> jsnum" where
  "num_min NaN _ = NaN"
| "num_min _ NaN = NaN"
| "num_min a b = (if num_lt b a then b else a)"

text \<open>
  The values the functions are called with: numbers, and the primitive values that are
  not numbers (a missing argument is \<open>undefined\<close>). Strings and objects are left out:
  no claim concerns them, and their conversion to numbers is a parser.
\<close>

datatype jsval = VNum jsnum | VUndefined | VNull | VBool bool

datatype jstype = TNumber | TUndefined | TObject | TBoolean

fun typeof :: "jsval \<Rightarrow> jstype" where
  "typeof (VNum _) = TNumber"
| "typeof VUndefined = TUndefined"
| "typeof VNull = TObject"
| "typeof (VBool _) = TBoolean"

text \<open>The conversion \<open>ToNumber\<close> that every arithmetic operator applies to its operands.\<close>

fun to_number :: "jsval \<Rightarrow> jsnum" where
  "to_number (VNum n) = n"
| "to_number VUndefined = NaN"
| "to_number VNull = Fin 0"
| "to_number (VBool b) = Fin (if b then 1 else 0)"

text \<open>Truthiness, as \<^verbatim>\<open>!x\<close>, \<^verbatim>\<open>x && y\<close> and \<^verbatim>\<open>x || y\<close> read it.\<close>

fun truthy :: "jsval \<Rightarrow> bool" where
  "truthy (VNum n) = (n \<noteq> Fin 0 \<and> n \<noteq> NaN)"
| "truthy VUndefined = False"
| "truthy VNull = False"
| "truthy (VBool b) = b"

definition js_or :: "jsval \<Rightarrow> jsval \<Rightarrow> jsval" where
  "js_or a b = (if truthy a then a else b)"

abbreviation num :: "real \<Rightarrow> jsval" where
  "num r \<equiv> VNum (Fin r)"

definition js_add :: "jsval \<Rightarrow> jsval \<Rightarrow> jsval" where
  "js_add a b = VNum (num_add (to_number a) (to_number b))"

definition js_sub :: "jsval \<Rightarrow> jsval \<Rightarrow> jsval" where
  "js_sub a b = VNum (num_sub (to_number a) (to_number b))"

definition js_mul :: "jsval \<Rightarrow> jsval \<Rightarrow> jsval" where
  "js_mul a b = VNum (num_mul (to_number a) (to_number b))"

definition js_div :: "jsval \<Rightarrow> jsval \<Rightarrow> jsval" where
  "js_div a b = VNum (num_div (to_number a) (to_number b))"

definition js_lt :: "jsval \<Rightarrow> jsval \<Rightarrow> bool" where
  "js_lt a b = num_lt (to_number a) (to_number b)"

definition js_le :: "jsval \<Rightarrow> jsval \<Rightarrow> bool" where
  "js_le a b = num_le (to_number a) (to_number b)"

definition js_gt :: "jsval \<Rightarrow> jsval \<Rightarrow> bool" where
  "js_gt a b = num_lt (to_number b) (to_number a)"

definition math_abs :: "jsval \<Rightarrow> jsval" where
  "math_abs a = VNum (num_abs (to_number a))"

definition math_max :: "jsval \<Rightarrow> jsval \<Rightarrow> jsval" where
  "math_max a b = VNum (num_max (to_number a) (to_number b))"

definition math_min :: "jsval \<Rightarrow> jsval \<Rightarrow> jsval" where
  "math_min a b = VNum (num_min (to_number a) (to_number b))"

section \<open>Double precision\<close>

text \<open>
  A JavaScript number is an IEEE 754 binary64 value, and every arithmetic operation
  returns the exact result rounded to the nearest double, ties to even.
  \<open>round_double\<close> is that rounding: the binade of \<open>x\<close> is \<open>exponent x\<close>, held at -1022
  in the subnormal range; the doubles of a binade are the multiples of
  \<open>2 powi (exponent x - 52)\<close>; a rounded magnitude of \<open>2 powi 1024\<close> or more overflows to
  the infinity of the sign of \<open>x\<close>. A real is a double when rounding returns it. The
  operators \<open>dbl_add\<close>, \<open>dbl_sub\<close>, \<open>dbl_mul\<close> and \<open>dbl_div\<close> are the operators of
  JavaScript on doubles: the exact operation, then the rounding.
\<close>

definition exponent :: "real \<Rightarrow> int" where
  "exponent x = max \<lfloor>log 2 \<bar>x\<bar>\<rfloor> (- 1022)"

definition round_half_even :: "real \<Rightarrow> int" where
  "round_half_even q =
     (let n = \<lfloor>q\<rfloor>; r = q - of_int n
      in if r < 1 / 2 then n else if 1 / 2 < r then n + 1 else if even n then n else n + 1)"

definition round_double :: "real \<Rightarrow> jsnum" where
  "round_double x =
     (if x = 0 then Fin 0
      else
        let u = 2 powi (exponent x - 52);
            y = of_int (round_half_even (x / u)) * u
        in if 2 powi 1024 \<le> \<bar>y\<bar> then signed_inf (0 < x) else Fin y)"

definition is_double :: "real \<Rightarrow> bool" where
  "is_double x = (round_double x = Fin x)"

fun rnd :: "jsnum \<Rightarrow> jsnum" where
  "rnd (Fin x) = round_double x"
| "rnd PosInf = PosInf"
| "rnd NegInf = NegInf"
| "rnd NaN = NaN"

definition dbl_add :: "jsval \<Rightarrow> jsval \<Rightarrow> jsval" where
  "dbl_add a b = VNum (rnd (num_add (to_number a) (to_number b)))"

definition dbl_sub :: "jsval \<Rightarrow> jsval \<Rightarrow> jsval" where
  "dbl_sub a b = VNum (rnd (num_sub (to_number a) (to_number b)))"

definition dbl_mul :: "jsval \<Rightarrow> jsval \<Rightarrow> jsval" where
  "dbl_mul a b = VNum (rnd (num_mul (to_number a) (to_number b)))"

definition dbl_div :: "jsval \<Rightarrow> jsval \<Rightarrow> jsval" where
  "dbl_div a b = VNum (rnd (num_div (to_number a) (to_number b)))"

section \<open>Products and elasticities\<close>

text \<open>
  A product of the local catalogue carries \<open>elasticity: {demand, supply}\<close>; a product
  of the API carries \<open>demand_elasticity\<close> and \<open>supply_elasticity\<close>. A property that a
  product does not have reads as \<open>undefined\<close>; the \<open>elasticity\<close> object is absent
  (\<open>None\<close>) or a pair. The fields that no calculation reads (code, name, category,
  tariff rates) are left out.
\<close>

record elasticity =
  demand :: jsval
  "supply" :: jsval

record product =
  demand_elasticity :: jsval
  supply_elasticity :: jsval
  elasticity :: "elasticity option"

datatype js_error = TypeError

section \<open>The plain engine\<close>

text \<open>
  The first copy of \<^verbatim>\<open>calculations.js\<close>. \<^verbatim>\<open>calculatePassThrough\<close> returns 0 without
  a product and destructures \<open>product.elasticity\<close> otherwise, which throws a
  \<open>TypeError\<close> when the product has no such property.
\<close>

definition calculatePassThrough_plain :: "product option \<Rightarrow> js_error + jsval" where
  "calculatePassThrough_plain p =
     (case p of
        None \<Rightarrow> Inr (num 0)
      | Some pr \<Rightarrow>
          (case elasticity pr of
             None \<Rightarrow> Inl TypeError
           | Some e \<Rightarrow>
               Inr (js_mul (js_div (supply e) (js_add (supply e) (math_abs (demand e))))
                      (num 100))))"

definition calculateImportCost_plain :: "jsval \<Rightarrow> jsval \<Rightarrow> jsval" where
  "calculateImportCost_plain retailPrice markupPercent =
     js_div retailPrice (js_add (num 1) (js_div markupPercent (num 100)))"

definition calculateTariffAmount_plain :: "jsval \<Rightarrow> jsval \<Rightarrow> jsval" where
  "calculateTariffAmount_plain importCost tariffRate =
     js_mul importCost (js_div tariffRate (num 100))"

definition calculateTariffPassed_plain :: "jsval \<Rightarrow> jsval \<Rightarrow> jsval" where
  "calculateTariffPassed_plain tariffAmount passThroughRate =
     js_mul tariffAmount (js_div passThroughRate (num 100))"

definition calculateFuturePrice_plain :: "jsval \<Rightarrow> jsval \<Rightarrow> jsval" where
  "calculateFuturePrice_plain retailPrice tariffPassed = js_add retailPrice tariffPassed"

definition calculateTariffTaxPercentage_plain :: "jsval \<Rightarrow> jsval \<Rightarrow> jsval" where
  "calculateTariffTaxPercentage_plain tariffPassed futurePrice =
     (if js_gt futurePrice (num 0)
      then js_mul (js_div tariffPassed futurePrice) (num 100)
      else num 0)"

definition calculateInventoryImpact_plain :: "jsval \<Rightarrow> jsval \<Rightarrow> jsval" where
  "calculateInventoryImpact_plain inventoryMonths priceIncrease =
     js_mul priceIncrease (js_sub (num 1) (js_div inventoryMonths (num 12)))"

section \<open>The defensive engine\<close>

text \<open>
  The second copy of \<^verbatim>\<open>calculations.js\<close> validates its arguments first. Each guard is
  the disjunction of the source, in its order; the comparisons of a guard are reached
  only by numbers, after the \<open>typeof\<close> tests.
\<close>

definition calculatePassThrough_defensive :: "product option \<Rightarrow> jsval" where
  "calculatePassThrough_defensive p =
     (case p of
        None \<Rightarrow> num 0
      | Some pr \<Rightarrow>
          (case elasticity pr of
             None \<Rightarrow> num 0
           | Some e \<Rightarrow>
               if typeof (demand e) \<noteq> TNumber \<or> typeof (supply e) \<noteq> TNumber then num 0
               else js_mul (js_div (supply e) (js_add (supply e) (math_abs (demand e))))
                      (num 100)))"

definition calculateImportCost_defensive :: "jsval \<Rightarrow> jsval \<Rightarrow> jsval" where
  "calculateImportCost_defensive retailPrice markupPercent =
     (if typeof retailPrice \<noteq> TNumber \<or> typeof markupPercent \<noteq> TNumber
         \<or> js_le retailPrice (num 0) then num 0
      else if js_le markupPercent (num (- 100)) then num 0
      else js_div retailPrice (js_add (num 1) (js_div markupPercent (num 100))))"

definition calculateTariffAmount_defensive :: "jsval \<Rightarrow> jsval \<Rightarrow> jsval" where
  "calculateTariffAmount_defensive importCost tariffRate =
     (if typeof importCost \<noteq> TNumber \<or> typeof tariffRate \<noteq> TNumber
         \<or> js_lt importCost (num 0) \<or> js_lt tariffRate (num 0) then num 0
      else js_mul importCost (js_div tariffRate (num 100)))"

definition calculateTariffPassed_defensive :: "jsval \<Rightarrow> jsval \<Rightarrow> jsval" where
  "calculateTariffPassed_defensive tariffAmount passThroughRate =
     (if typeof tariffAmount \<noteq> TNumber \<or> typeof passThroughRate \<noteq> TNumber
         \<or> js_lt tariffAmount (num 0) then num 0
      else
        let clampedRate = math_max (num 0) (math_min (num 100) passThroughRate)
        in js_mul tariffAmount (js_div clampedRate (num 100)))"

definition calculateFuturePrice_defensive :: "jsval \<Rightarrow> jsval \<Rightarrow> jsval" where
  "calculateFuturePrice_defensive retailPrice tariffPassed =
     (if typeof retailPrice \<noteq> TNumber \<or> typeof tariffPassed \<noteq> TNumber
         \<or> js_lt retailPrice (num 0) \<or> js_lt tariffPassed (num 0)
      then js_or retailPrice (num 0)
      else js_add retailPrice tariffPassed)"

definition calculateTariffTaxPercentage_defensive :: "jsval \<Rightarrow> jsval \<Rightarrow> jsval" where
  "calculateTariffTaxPercentage_defensive tariffPassed futurePrice =
     (if typeof tariffPassed \<noteq> TNumber \<or> typeof futurePrice \<noteq> TNumber
         \<or> js_le futurePrice (num 0) \<or> js_lt tariffPassed (num 0) then num 0
      else js_mul (js_div tariffPassed futurePrice) (num 100))"

definition calculateInventoryImpact_defensive :: "jsval \<Rightarrow> jsval \<Rightarrow> jsval" where
  "calculateInventoryImpact_defensive inventoryMonths priceIncrease =
     (if typeof inventoryMonths \<noteq> TNumber \<or> typeof priceIncrease \<noteq> TNumber
         \<or> js_lt priceIncrease (num 0)
      then js_or priceIncrease (num 0)
      else
        let clampedMonths = math_max (num 0) (math_min (num 12) inventoryMonths)
        in js_mul priceIncrease (js_sub (num 1) (js_div clampedMonths (num 12))))"

section \<open>The engine in double arithmetic\<close>

text \<open>
  The same functions of both copies of \<^verbatim>\<open>calculations.js\<close>, with every \<^verbatim>\<open>+\<close>,
  \<^verbatim>\<open>-\<close>, \<^verbatim>\<open>*\<close> and \<^verbatim>\<open>/\<close> rounded to a double. Comparisons, \<^verbatim>\<open>Math.abs\<close>,
  \<^verbatim>\<open>Math.max\<close> and \<^verbatim>\<open>Math.min\<close> are exact on doubles and stay as they are.
\<close>

definition calculatePassThrough_plain_ieee :: "product option \<Rightarrow> js_error + jsval" where
  "calculatePassThrough_plain_ieee p =
     (case p of
        None \<Rightarrow> Inr (num 0)
      | Some pr \<Rightarrow>
          (case elasticity pr of
             None \<Rightarrow> Inl TypeError
           | Some e \<Rightarrow>
               Inr (dbl_mul (dbl_div (supply e) (dbl_add (supply e) (math_abs (demand e))))
                      (num 100))))"

definition calculateImportCost_plain_ieee :: "jsval \<Rightarrow> jsval \<Rightarrow> jsval" where
  "calculateImportCost_plain_ieee retailPrice markupPercent =
     dbl_div retailPrice (dbl_add (num 1) (dbl_div markupPercent (num 100)))"

definition calculateTariffAmount_plain_ieee :: "jsval \<Rightarrow> jsval \<Rightarrow> jsval" where
  "calculateTariffAmount_plain_ieee importCost tariffRate =
     dbl_mul importCost (dbl_div tariffRate (num 100))"

definition calculateTariffPassed_plain_ieee :: "jsval \<Rightarrow> jsval \<Rightarrow> jsval" where
  "calculateTariffPassed_plain_ieee tariffAmount passThroughRate =
     dbl_mul tariffAmount (dbl_div passThroughRate (num 100))"

definition calculateFuturePrice_plain_ieee :: "jsval \<Rightarrow> jsval \<Rightarrow> jsval" where
  "calculateFuturePrice_plain_ieee retailPrice tariffPassed = dbl_add retailPrice tariffPassed"

definition calculateTariffTaxPercentage_plain_ieee :: "jsval \<Rightarrow> jsval \<Rightarrow> jsval" where
  "calculateTariffTaxPercentage_plain_ieee tariffPassed futurePrice =
     (if js_gt futurePrice (num 0)
      then dbl_mul (dbl_div tariffPassed futurePrice) (num 100)
      else num 0)"

definition calculateInventoryImpact_plain_ieee :: "jsval \<Rightarrow> jsval \<Rightarrow> jsval" where
  "calculateInventoryImpact_plain_ieee inventoryMonths priceIncrease =
     dbl_mul priceIncrease (dbl_sub (num 1) (dbl_div inventoryMonths (num 12)))"

definition calculatePassThrough_defensive_ieee :: "product option \<Rightarrow> jsval" where
  "calculatePassThrough_defensive_ieee p =
     (case p of
        None \<Rightarrow> num 0
      | Some pr \<Rightarrow>
          (case elasticity pr of
             None \<Rightarrow> num 0
           | Some e \<Rightarrow>
               if typeof (demand e) \<noteq> TNumber \<or> typeof (supply e) \<noteq> TNumber then num 0
               else dbl_mul (dbl_div (supply e) (dbl_add (supply e) (math_abs (demand e))))
                      (num 100)))"

definition calculateImportCost_defensive_ieee :: "jsval \<Rightarrow> jsval \<Rightarrow> jsval" where
  "calculateImportCost_defensive_ieee retailPrice markupPercent =
     (if typeof retailPrice \<noteq> TNumber \<or> typeof markupPercent \<noteq> TNumber
         \<or> js_le retailPrice (num 0) then num 0
      else if js_le markupPercent (num (- 100)) then num 0
      else dbl_div retailPrice (dbl_add (num 1) (dbl_div markupPercent (num 100))))"

definition calculateTariffAmount_defensive_ieee :: "jsval \<Rightarrow> jsval \<Rightarrow> jsval" where
  "calculateTariffAmount_defensive_ieee importCost tariffRate =
     (if typeof importCost \<noteq> TNumber \<or> typeof tariffRate \<noteq> TNumber
         \<or> js_lt importCost (num 0) \<or> js_lt tariffRate (num 0) then num 0
      else dbl_mul importCost (dbl_div tariffRate (num 100)))"

definition calculateTariffPassed_defensive_ieee :: "jsval \<Rightarrow> jsval \<Rightarrow> jsval" where
  "calculateTariffPassed_defensive_ieee tariffAmount passThroughRate =
     (if typeof tariffAmount \<noteq> TNumber \<or> typeof passThroughRate \<noteq> TNumber
         \<or> js_lt tariffAmount (num 0) then num 0
      else
        let clampedRate = math_max (num 0) (math_min (num 100) passThroughRate)
        in dbl_mul tariffAmount (dbl_div clampedRate (num 100)))"

definition calculateFuturePrice_defensive_ieee :: "jsval \<Rightarrow> jsval \<Rightarrow> jsval" where
  "calculateFuturePrice_defensive_ieee retailPrice tariffPassed =
     (if typeof retailPrice \<noteq> TNumber \<or> typeof tariffPassed \<noteq> TNumber
         \<or> js_lt retailPrice (num 0) \<or> js_lt tariffPassed (num 0)
      then js_or retailPrice (num 0)
      else dbl_add retailPrice tariffPassed)"

definition calculateTariffTaxPercentage_defensive_ieee :: "jsval \<Rightarrow> jsval \<Rightarrow> jsval" where
  "calculateTariffTaxPercentage_defensive_ieee tariffPassed futurePrice =
     (if typeof tariffPassed \<noteq> TNumber \<or> typeof futurePrice \<noteq> TNumber
         \<or> js_le futurePrice (num 0) \<or> js_lt tariffPassed (num 0) then num 0
      else dbl_mul (dbl_div tariffPassed futurePrice) (num 100))"

definition calculateInventoryImpact_defensive_ieee :: "jsval \<Rightarrow> jsval \<Rightarrow> jsval" where
  "calculateInventoryImpact_defensive_ieee inventoryMonths priceIncrease =
     (if typeof inventoryMonths \<noteq> TNumber \<or> typeof priceIncrease \<noteq> TNumber
         \<or> js_lt priceIncrease (num 0)
      then js_or priceIncrease (num 0)
      else
        let clampedMonths = math_max (num 0) (math_min (num 12) inventoryMonths)
        in dbl_mul priceIncrease (dbl_sub (num 1) (dbl_div clampedMonths (num 12))))"

section \<open>The calculator component\<close>

text \<open>
  \<^verbatim>\<open>calculatedPassThrough\<close> of \<^verbatim>\<open>Calculator.jsx\<close>: 75 without a selected product,
  the formula on the API fields when both are truthy, the formula on the local pair when
  the product has one, 75 otherwise.
\<close>

definition calculatedPassThrough :: "product option \<Rightarrow> jsval" where
  "calculatedPassThrough selectedProductData =
     (case selectedProductData of
        None \<Rightarrow> num 75
      | Some pr \<Rightarrow>
          if truthy (demand_elasticity pr) \<and> truthy (supply_elasticity pr)
          then js_mul (js_div (supply_elasticity pr)
                 (js_add (supply_elasticity pr) (math_abs (demand_elasticity pr))))
                 (num 100)
          else
            (case elasticity pr of
               Some e \<Rightarrow>
                 js_mul (js_div (supply e) (js_add (supply e) (math_abs (demand e))))
                   (num 100)
             | None \<Rightarrow> num 75))"

text \<open>
  The memoised \<^verbatim>\<open>calculations\<close> of \<^verbatim>\<open>Calculator.jsx\<close>: the state of the component
  in, the record of results out. The component imports the six functions from
  \<^verbatim>\<open>calculations.js\<close>, so there is one pipeline for each copy of that file.
\<close>

record calculator_state =
  retailPrice :: jsval
  retailMarkup :: jsval
  tariffRate :: jsval
  customPassThrough :: jsval
  inventoryBuffer :: jsval

record calculations =
  importCost :: jsval
  tariffAmount :: jsval
  tariffPassed :: jsval
  futurePrice :: jsval
  tariffTaxPct :: jsval
  inventoryAdjustedIncrease :: jsval
  priceIncreasePercent :: jsval

definition calculations_plain :: "calculator_state \<Rightarrow> calculations" where
  "calculations_plain s =
     (let importCost' = calculateImportCost_plain (retailPrice s) (retailMarkup s);
          tariffAmount' = calculateTariffAmount_plain importCost' (tariffRate s);
          effectivePassThrough = customPassThrough s;
          tariffPassed' = calculateTariffPassed_plain tariffAmount' effectivePassThrough;
          futurePrice' = calculateFuturePrice_plain (retailPrice s) tariffPassed';
          tariffTaxPct' = calculateTariffTaxPercentage_plain tariffPassed' futurePrice';
          inventoryAdjustedIncrease' =
            calculateInventoryImpact_plain (inventoryBuffer s) tariffPassed'
      in \<lparr>importCost = importCost',
          tariffAmount = tariffAmount',
          tariffPassed = tariffPassed',
          futurePrice = futurePrice',
          tariffTaxPct = tariffTaxPct',
          inventoryAdjustedIncrease = inventoryAdjustedIncrease',
          priceIncreasePercent = js_mul (js_div tariffPassed' (retailPrice s)) (num 100)\<rparr>)"

definition calculations_defensive :: "calculator_state \<Rightarrow> calculations" where
  "calculations_defensive s =
     (let importCost' = calculateImportCost_defensive (retailPrice s) (retailMarkup s);
          tariffAmount' = calculateTariffAmount_defensive importCost' (tariffRate s);
          effectivePassThrough = customPassThrough s;
          tariffPassed' = calculateTariffPassed_defensive tariffAmount' effectivePassThrough;
          futurePrice' = calculateFuturePrice_defensive (retailPrice s) tariffPassed';
          tariffTaxPct' = calculateTariffTaxPercentage_defensive tariffPassed' futurePrice';
          inventoryAdjustedIncrease' =
            calculateInventoryImpact_defensive (inventoryBuffer s) tariffPassed'
      in \<lparr>importCost = importCost',
          tariffAmount = tariffAmount',
          tariffPassed = tariffPassed',
          futurePrice = futurePrice',
          tariffTaxPct = tariffTaxPct',
          inventoryAdjustedIncrease = inventoryAdjustedIncrease',
          priceIncreasePercent = js_mul (js_div tariffPassed' (retailPrice s)) (num 100)\<rparr>)"

text \<open>The pipeline of the calculator over the engine in double arithmetic.\<close>

definition calculations_plain_ieee :: "calculator_state \<Rightarrow> calculations" where
  "calculations_plain_ieee s =
     (let importCost' = calculateImportCost_plain_ieee (retailPrice s) (retailMarkup s);
          tariffAmount' = calculateTariffAmount_plain_ieee importCost' (tariffRate s);
          effectivePassThrough = customPassThrough s;
          tariffPassed' = calculateTariffPassed_plain_ieee tariffAmount' effectivePassThrough;
          futurePrice' = calculateFuturePrice_plain_ieee (retailPrice s) tariffPassed';
          tariffTaxPct' = calculateTariffTaxPercentage_plain_ieee tariffPassed' futurePrice';
          inventoryAdjustedIncrease' =
            calculateInventoryImpact_plain_ieee (inventoryBuffer s) tariffPassed'
      in \<lparr>importCost = importCost',
          tariffAmount = tariffAmount',
          tariffPassed = tariffPassed',
          futurePrice = futurePrice',
          tariffTaxPct = tariffTaxPct',
          inventoryAdjustedIncrease = inventoryAdjustedIncrease',
          priceIncreasePercent = dbl_mul (dbl_div tariffPassed' (retailPrice s)) (num 100)\<rparr>)"

definition calculations_defensive_ieee :: "calculator_state \<Rightarrow> calculations" where
  "calculations_defensive_ieee s =
     (let importCost' = calculateImportCost_defensive_ieee (retailPrice s) (retailMarkup s);
          tariffAmount' = calculateTariffAmount_defensive_ieee importCost' (tariffRate s);
          effectivePassThrough = customPassThrough s;
          tariffPassed' = calculateTariffPassed_defensive_ieee tariffAmount' effectivePassThrough;
          futurePrice' = calculateFuturePrice_defensive_ieee (retailPrice s) tariffPassed';
          tariffTaxPct' = calculateTariffTaxPercentage_defensive_ieee tariffPassed' futurePrice';
          inventoryAdjustedIncrease' =
            calculateInventoryImpact_defensive_ieee (inventoryBuffer s) tariffPassed'
      in \<lparr>importCost = importCost',
          tariffAmount = tariffAmount',
          tariffPassed = tariffPassed',
          futurePrice = futurePrice',
          tariffTaxPct = tariffTaxPct',
          inventoryAdjustedIncrease = inventoryAdjustedIncrease',
          priceIncreasePercent = dbl_mul (dbl_div tariffPassed' (retailPrice s)) (num 100)\<rparr>)"

section \<open>Arithmetic of the model\<close>

lemmas js_ops = js_add_def js_sub_def js_mul_def js_div_def js_lt_def js_le_def js_gt_def
  math_abs_def math_max_def math_min_def num_sub_def signed_inf_def js_or_def

lemma num_lt_not_le: "num_lt a b \<Longrightarrow> \<not> num_le b a"
  by (cases a; cases b) simp_all

lemma num_le_not_lt: "num_le a b \<Longrightarrow> \<not> num_lt b a"
  by (cases a; cases b) simp_all

lemma num_lt_asym: "num_lt a b \<Longrightarrow> \<not> num_lt b a"
  by (cases a; cases b) simp_all

text \<open>Clamping a number that is in range already returns it.\<close>

lemma clamp_in_range:
  "num_le (Fin lo) x \<Longrightarrow> num_le x (Fin hi) \<Longrightarrow> num_max (Fin lo) (num_min (Fin hi) x) = x"
  by (cases x) auto

text \<open>On finite numbers \<^verbatim>\<open>Math.max(lo, Math.min(hi, x))\<close> is the clamp of the reals.\<close>

lemma clamp_real:
  "math_max (num lo) (math_min (num hi) (num x)) = num (max lo (min hi x))"
  by (simp add: js_ops max_def min_def)

lemma markup_divisor_pos: "- 100 < (m::real) \<Longrightarrow> 0 < 1 + m / 100"
  by (simp add: field_simps)

section \<open>Rounding to a double\<close>

lemma round_half_even_ge: "of_int n \<le> q \<Longrightarrow> n \<le> round_half_even q"
proof -
  assume "of_int n \<le> q"
  then have "n \<le> \<lfloor>q\<rfloor>" by (simp add: le_floor_iff)
  then show ?thesis by (simp add: round_half_even_def Let_def)
qed

lemma round_half_even_le: "q \<le> of_int n \<Longrightarrow> round_half_even q \<le> n"
proof -
  assume a: "q \<le> of_int n"
  have fl: "\<lfloor>q\<rfloor> \<le> n" using a by (simp add: floor_le_iff) 
  show ?thesis
  proof (cases "\<lfloor>q\<rfloor> = n")
    case True
    then have "q - of_int \<lfloor>q\<rfloor> \<le> 0" using a by simp
    then show ?thesis using True by (simp add: round_half_even_def Let_def)
  next
    case False
    then have "\<lfloor>q\<rfloor> + 1 \<le> n" using fl by simp
    then show ?thesis by (auto simp add: round_half_even_def Let_def)
  qed
qed

lemma round_half_even_of_int: "round_half_even (of_int n) = n"
  by (simp add: round_half_even_def)

lemma round_half_even_error: "\<bar>of_int (round_half_even q) - q\<bar> \<le> 1 / 2"
  unfolding round_half_even_def Let_def
  by (auto simp add: abs_le_iff; linarith)

lemma floor_log2_iff:
  assumes "0 < x"
  shows "(\<lfloor>log 2 x\<rfloor> = k) = (2 powi k \<le> x \<and> x < 2 powi (k + 1))"
proof -
  have a: "(2::real) powr real_of_int k = 2 powi k"
    by (rule powr_real_of_int') simp_all
  have b: "(2::real) powr real_of_int (k + 1) = 2 powi (k + 1)"
    by (rule powr_real_of_int') simp_all
  from floor_log_eq_powr_iff [of x 2 k] assms
  have "(\<lfloor>log 2 x\<rfloor> = k) = (2 powr real_of_int k \<le> x \<and> x < 2 powr real_of_int (k + 1))"
    by simp
  then show ?thesis unfolding a b .
qed

lemma exponent_ge: "- 1022 \<le> exponent x"
  by (simp add: exponent_def)

lemma exponent_upper: "x \<noteq> 0 \<Longrightarrow> \<bar>x\<bar> < 2 powi (exponent x + 1)"
proof -
  assume "x \<noteq> 0"
  then have pos: "0 < \<bar>x\<bar>" by simp
  define k where "k = \<lfloor>log 2 \<bar>x\<bar>\<rfloor>"
  have "\<bar>x\<bar> < 2 powi (k + 1)"
    using floor_log2_iff [of "\<bar>x\<bar>" k] pos k_def by simp
  also have "\<dots> \<le> 2 powi (exponent x + 1)"
    by (rule power_int_increasing) (simp_all add: exponent_def k_def)
  finally show ?thesis .
qed

lemma exponent_lower: "x \<noteq> 0 \<Longrightarrow> - 1022 < exponent x \<Longrightarrow> 2 powi exponent x \<le> \<bar>x\<bar>"
proof -
  assume "x \<noteq> 0" and big: "- 1022 < exponent x"
  then have pos: "0 < \<bar>x\<bar>" by simp
  define k where "k = \<lfloor>log 2 \<bar>x\<bar>\<rfloor>"
  have e: "exponent x = k" using big by (simp add: exponent_def k_def max_def split: if_splits)
  have "2 powi k \<le> \<bar>x\<bar>"
    using floor_log2_iff [of "\<bar>x\<bar>" k] pos k_def by simp
  then show ?thesis by (simp add: e)
qed

lemma exponent_mono: "0 < \<bar>x\<bar> \<Longrightarrow> \<bar>x\<bar> \<le> \<bar>y\<bar> \<Longrightarrow> exponent x \<le> exponent y"
proof -
  assume "0 < \<bar>x\<bar>" "\<bar>x\<bar> \<le> \<bar>y\<bar>"
  then have "log 2 \<bar>x\<bar> \<le> log 2 \<bar>y\<bar>" by simp
  then have "\<lfloor>log 2 \<bar>x\<bar>\<rfloor> \<le> \<lfloor>log 2 \<bar>y\<bar>\<rfloor>" by (rule floor_mono)
  then show ?thesis by (simp add: exponent_def)
qed

lemma exponent_eqI:
  "2 powi e \<le> \<bar>x\<bar> \<Longrightarrow> \<bar>x\<bar> < 2 powi (e + 1) \<Longrightarrow> - 1022 \<le> e \<Longrightarrow> exponent x = e"
proof -
  assume lo: "2 powi e \<le> \<bar>x\<bar>" and hi: "\<bar>x\<bar> < 2 powi (e + 1)" and e: "- 1022 \<le> e"
  have "0 < (2::real) powi e" by simp
  then have pos: "0 < \<bar>x\<bar>" using lo by linarith
  have "\<lfloor>log 2 \<bar>x\<bar>\<rfloor> = e"
    using floor_log2_iff [of "\<bar>x\<bar>" e] pos lo hi by simp
  then show ?thesis using e by (simp add: exponent_def)
qed

lemma ulp_pos: "0 < (2::real) powi k"
  by simp

lemma binade_split: "(2::real) powi e = 2 ^ 52 * 2 powi (e - 52)"
  using power_int_add [of "2::real" 52 "e - 52"] by simp

lemma binade_split_next: "(2::real) powi (e + 1) = 2 ^ 53 * 2 powi (e - 52)"
  using power_int_add [of "2::real" 53 "e - 52"] by (simp add: add.commute)

text \<open>The rounding of a positive number: the grid point, or overflow.\<close>

lemma round_double_pos:
  assumes "0 < x"
  defines "u \<equiv> 2 powi (exponent x - 52)"
  defines "y \<equiv> of_int (round_half_even (x / u)) * u"
  shows "round_double x = (if 2 powi 1024 \<le> y then PosInf else Fin y)" and "0 \<le> y"
proof -
  have u: "0 < u" by (simp add: u_def)
  then have "of_int 0 \<le> x / u" using assms(1) by simp
  then have "0 \<le> round_half_even (x / u)" by (rule round_half_even_ge)
  then show y: "0 \<le> y" using u by (simp add: y_def)
  then show "round_double x = (if 2 powi 1024 \<le> y then PosInf else Fin y)"
    using assms(1) by (simp add: round_double_def Let_def u_def y_def signed_inf_def)
qed

lemma is_double_grid:
  assumes "is_double a" and "a \<noteq> 0"
  shows "a = of_int (round_half_even (a / 2 powi (exponent a - 52))) * 2 powi (exponent a - 52)"
    and "\<bar>a\<bar> < 2 powi 1024"
  using assms
  by (auto simp add: is_double_def round_double_def Let_def signed_inf_def split: if_splits)

lemma round_double_lower:
  assumes a: "is_double a" and pos: "0 < a" and le: "a \<le> x"
  shows "round_double x = PosInf \<or> (\<exists>y. round_double x = Fin y \<and> a \<le> y)"
proof -
  define u where "u = (2::real) powi (exponent x - 52)"
  define y where "y = of_int (round_half_even (x / u)) * u"
  define ua where "ua = (2::real) powi (exponent a - 52)"
  define na where "na = round_half_even (a / ua)"
  have xpos: "0 < x" using pos le by simp
  have u: "0 < u" and ua: "0 < ua" by (simp_all add: u_def ua_def)
  have grid: "a = of_int na * ua"
    using is_double_grid(1) [OF a] pos by (simp add: ua_def na_def)
  have mono: "exponent a \<le> exponent x"
    using exponent_mono [of a x] pos le by simp
  have "a \<le> y"
  proof (cases "exponent a = exponent x")
    case True
    then have same: "ua = u" by (simp add: u_def ua_def)
    have "a / u \<le> x / u" using le u by (simp add: divide_right_mono)
    moreover have "a / u = of_int na" using grid same u by simp
    ultimately have "of_int na \<le> x / u" by simp
    then have "na \<le> round_half_even (x / u)" by (rule round_half_even_ge)
    then have "of_int na * u \<le> y" using u by (simp add: y_def)
    then show ?thesis using grid same by simp
  next
    case False
    then have less: "exponent a < exponent x" using mono by simp
    then have "- 1022 < exponent x" using exponent_ge [of a] by simp
    then have "2 powi exponent x \<le> x" using exponent_lower [of x] xpos by simp
    then have "2 ^ 52 * u \<le> x" using binade_split [of "exponent x"] by (simp add: u_def)
    then have "2 ^ 52 \<le> x / u" using u by (simp add: pos_le_divide_eq)
    then have "of_int (2 ^ 52) \<le> x / u" by simp
    then have "2 ^ 52 \<le> round_half_even (x / u)" by (rule round_half_even_ge)
    then have "of_int (2 ^ 52) \<le> (of_int (round_half_even (x / u)) :: real)"
      by (simp only: of_int_le_iff)
    then have "2 ^ 52 * u \<le> y" using u by (simp add: y_def)
    then have "2 powi exponent x \<le> y" using binade_split [of "exponent x"] by (simp add: u_def)
    moreover have "a < 2 powi (exponent a + 1)" using exponent_upper [of a] pos by simp
    moreover have "(2::real) powi (exponent a + 1) \<le> 2 powi exponent x"
      by (rule power_int_increasing) (use less in simp_all)
    ultimately show ?thesis by linarith
  qed
  then show ?thesis
    using round_double_pos(1) [OF xpos] by (simp add: u_def y_def)
qed

lemma round_double_upper:
  assumes b: "is_double b" and pos: "0 < x" and le: "x \<le> b"
  shows "\<exists>y. round_double x = Fin y \<and> 0 \<le> y \<and> y \<le> b"
proof -
  define u where "u = (2::real) powi (exponent x - 52)"
  define y where "y = of_int (round_half_even (x / u)) * u"
  define ub where "ub = (2::real) powi (exponent b - 52)"
  define nb where "nb = round_half_even (b / ub)"
  have bpos: "0 < b" using pos le by simp
  have u: "0 < u" and ub: "0 < ub" by (simp_all add: u_def ub_def)
  have grid: "b = of_int nb * ub"
    using is_double_grid(1) [OF b] bpos by (simp add: ub_def nb_def)
  have bound: "b < 2 powi 1024"
    using is_double_grid(2) [OF b] bpos by simp
  have mono: "exponent x \<le> exponent b"
    using exponent_mono [of x b] pos le by simp
  have "y \<le> b"
  proof (cases "exponent x = exponent b")
    case True
    then have same: "ub = u" by (simp add: u_def ub_def)
    have "x / u \<le> b / u" using le u by (simp add: divide_right_mono)
    moreover have "b / u = of_int nb" using grid same u by simp
    ultimately have "x / u \<le> of_int nb" by simp
    then have "round_half_even (x / u) \<le> nb" by (rule round_half_even_le)
    then have "y \<le> of_int nb * u" using u by (simp add: y_def)
    then show ?thesis using grid same by simp
  next
    case False
    then have less: "exponent x < exponent b" using mono by simp
    then have "- 1022 < exponent b" using exponent_ge [of x] by simp
    then have lowb: "2 powi exponent b \<le> b" using exponent_lower [of b] bpos by simp
    have "x < 2 powi (exponent x + 1)" using exponent_upper [of x] pos by simp
    then have "x \<le> 2 ^ 53 * u" using binade_split_next [of "exponent x"] by (simp add: u_def)
    then have "x / u \<le> 2 ^ 53" using u by (simp add: pos_divide_le_eq)
    then have "x / u \<le> of_int (2 ^ 53)" by simp
    then have "round_half_even (x / u) \<le> 2 ^ 53" by (rule round_half_even_le)
    then have "(of_int (round_half_even (x / u)) :: real) \<le> of_int (2 ^ 53)"
      by (simp only: of_int_le_iff)
    then have "y \<le> 2 ^ 53 * u" using u by (simp add: y_def)
    then have "y \<le> 2 powi (exponent x + 1)"
      using binade_split_next [of "exponent x"] by (simp add: u_def)
    moreover have "(2::real) powi (exponent x + 1) \<le> 2 powi exponent b"
      by (rule power_int_increasing) (use less in simp_all)
    ultimately show ?thesis using lowb by linarith
  qed
  moreover have "0 \<le> y" using round_double_pos(2) [OF pos] by (simp add: u_def y_def)
  ultimately show ?thesis
    using round_double_pos(1) [OF pos] bound by (simp add: u_def y_def)
qed

lemma round_half_even_minus: "round_half_even (- q) = - round_half_even q"
proof (cases "of_int \<lfloor>q\<rfloor> = q")
  case True
  then obtain k where k: "q = of_int k" by metis
  show ?thesis
    unfolding k using round_half_even_of_int [of "- k"] by (simp add: round_half_even_of_int)
next
  case False
  define n where "n = \<lfloor>q\<rfloor>"
  have lo: "of_int n < q" using False n_def by (metis of_int_floor_le order_less_le)
  have hi: "q < of_int n + 1" using n_def by linarith
  have fl: "\<lfloor>- q\<rfloor> = - n - 1"
    by (rule floor_unique) (use lo hi in simp_all)
  have par: "even (- n - 1) = odd n" by simp
  show ?thesis
    using lo hi par unfolding round_half_even_def Let_def fl n_def [symmetric]
    by (auto simp add: field_simps)
qed

lemma exponent_minus: "exponent (- x) = exponent x"
  by (simp add: exponent_def)

lemma round_double_minus: "round_double (- x) = num_neg (round_double x)"
  by (simp add: round_double_def Let_def exponent_minus round_half_even_minus signed_inf_def)

lemma is_double_minus: "is_double (- x) = is_double x"
proof -
  have "(num_neg v = Fin (- x)) = (v = Fin x)" for v
    by (cases v) auto
  then show ?thesis by (simp add: is_double_def round_double_minus)
qed

lemma is_double_zero: "is_double 0"
  by (simp add: is_double_def round_double_def)

text \<open>Rounding stays between the doubles that enclose its argument.\<close>

lemma round_double_abs_le:
  assumes "is_double b" and "\<bar>x\<bar> \<le> \<bar>b\<bar>"
  shows "\<exists>y. round_double x = Fin y \<and> \<bar>y\<bar> \<le> \<bar>b\<bar> \<and> (0 \<le> x \<longrightarrow> 0 \<le> y) \<and> (x \<le> 0 \<longrightarrow> y \<le> 0)"
proof -
  have b': "is_double \<bar>b\<bar>" using assms(1) is_double_minus [of b] by (simp add: abs_if)
  consider "x = 0" | "0 < x" | "x < 0" by linarith
  then show ?thesis
  proof cases
    case 1
    then show ?thesis by (simp add: round_double_def)
  next
    case 2
    then obtain y where "round_double x = Fin y" "0 \<le> y" "y \<le> \<bar>b\<bar>"
      using round_double_upper [OF b', of x] assms(2) by auto
    then show ?thesis using 2 by auto
  next
    case 3
    then obtain y where "round_double (- x) = Fin y" "0 \<le> y" "y \<le> \<bar>b\<bar>"
      using round_double_upper [OF b', of "- x"] assms(2) by auto
    then have "round_double x = Fin (- y)"
      using round_double_minus [of "- x"] by simp
    then show ?thesis using 3 \<open>0 \<le> y\<close> \<open>y \<le> \<bar>b\<bar>\<close> by auto
  qed
qed

text \<open>Evaluating the rounding of a number whose binade is known.\<close>

lemma round_double_binade:
  assumes "2 powi e \<le> \<bar>x\<bar>" and "\<bar>x\<bar> < 2 powi (e + 1)" and "- 1022 \<le> e"
  shows "round_double x =
     (let y = of_int (round_half_even (x / 2 powi (e - 52))) * 2 powi (e - 52)
      in if 2 powi 1024 \<le> \<bar>y\<bar> then signed_inf (0 < x) else Fin y)"
proof -
  have "0 < (2::real) powi e" by simp
  then have "0 < \<bar>x\<bar>" using assms(1) by linarith
  then have "x \<noteq> 0" by simp
  then show ?thesis
    using exponent_eqI [OF assms] by (simp add: round_double_def Let_def)
qed

lemma is_double_1: "is_double 1"
  using round_double_binade [of 0 1] by (simp add: is_double_def round_half_even_def)

lemma is_double_100: "is_double 100"
  using round_double_binade [of 6 100] by (simp add: is_double_def round_half_even_def)

lemmas dbl_ops = dbl_add_def dbl_sub_def dbl_mul_def dbl_div_def

lemma round_double_0: "round_double 0 = Fin 0"
  by (simp add: round_double_def)

lemma round_double_nonneg:
  assumes "0 \<le> x"
  shows "round_double x = PosInf \<or> (\<exists>y. round_double x = Fin y \<and> 0 \<le> y)"
proof (cases "x = 0")
  case True
  then show ?thesis by (simp add: round_double_0)
next
  case False
  then have "0 < x" using assms by simp
  then show ?thesis using round_double_pos [of x] by auto
qed

text \<open>The pass-through formula in double arithmetic stays within [0, 100].\<close>

lemma pass_through_ieee_bounds:
  assumes s: "is_double s" and "0 < s" and "d < 0"
  shows "\<exists>x. dbl_mul (dbl_div (num s) (dbl_add (num s) (math_abs (num d)))) (num 100) = num x
           \<and> 0 \<le> x \<and> x \<le> 100"
proof -
  have "s \<le> s + \<bar>d\<bar>" by simp
  from round_double_lower [OF s \<open>0 < s\<close> this]
  consider "round_double (s + \<bar>d\<bar>) = PosInf"
    | y where "round_double (s + \<bar>d\<bar>) = Fin y" and "s \<le> y"
    by auto
  then show ?thesis
  proof cases
    case 1
    then show ?thesis by (simp add: dbl_ops math_abs_def round_double_0)
  next
    case 2
    then have y: "0 < y" using \<open>0 < s\<close> by simp
    then have "\<bar>s / y\<bar> \<le> \<bar>1\<bar>" and "0 \<le> s / y" using 2(2) \<open>0 < s\<close> by simp_all
    with round_double_abs_le [OF is_double_1, of "s / y"]
    obtain q where q: "round_double (s / y) = Fin q" "0 \<le> q" "q \<le> 1" by auto
    then have "\<bar>q * 100\<bar> \<le> \<bar>100\<bar>" and "0 \<le> q * 100" by simp_all
    with round_double_abs_le [OF is_double_100, of "q * 100"]
    obtain z where z: "round_double (q * 100) = Fin z" "0 \<le> z" "z \<le> 100" by auto
    show ?thesis using 2(1) y q(1) z by (simp add: dbl_ops math_abs_def)
  qed
qed

text \<open>Some doubles, and some roundings.\<close>

lemma is_double_2: "is_double 2"
  using round_double_binade [of 1 2] by (simp add: is_double_def round_half_even_def)

lemma round_double_near_1: "round_double (1 + 1 / 2 ^ 60) = Fin 1"
  using round_double_binade [of 0 "1 + 1 / 2 ^ 60"] by (simp add: round_half_even_def)

lemma round_double_overflow: "round_double (2 ^ 1024) = PosInf"
  using round_double_binade [of 1024 "2 ^ 1024"]
  by (simp add: round_half_even_def signed_inf_def)

lemma is_double_max_binade: "is_double (2 ^ 1023)"
  using round_double_binade [of 1023 "2 ^ 1023"]
  by (simp add: is_double_def round_half_even_def)

lemma is_double_tiny: "is_double (1 / 2 ^ 60)"
  using round_double_binade [of "- 60" "1 / 2 ^ 60"]
  by (simp add: is_double_def round_half_even_def)

lemma round_double_1: "round_double 1 = Fin 1"
  using is_double_1 by (simp add: is_double_def)

lemma round_double_100: "round_double 100 = Fin 100"
  using is_double_100 by (simp add: is_double_def)

lemma round_double_half: "round_double (1 / 2) = Fin (1 / 2)"
  using round_double_binade [of "- 1" "1 / 2"] by (simp add: round_half_even_def)

lemma round_double_minus_half: "round_double (- (1 / 2)) = Fin (- (1 / 2))"
  using round_double_minus [of "1 / 2"] by (simp add: round_double_half)

lemma round_double_3_2: "round_double (3 / 2) = Fin (3 / 2)"
  using round_double_binade [of 0 "3 / 2"] by (simp add: round_half_even_def)

lemma is_double_150: "is_double 150"
  using round_double_binade [of 7 150] by (simp add: is_double_def round_half_even_def)

lemma is_double_75: "is_double 75"
  using round_double_binade [of 6 75] by (simp add: is_double_def round_half_even_def)

lemma is_double_50: "is_double 50"
  using round_double_binade [of 5 50] by (simp add: is_double_def round_half_even_def)

section \<open>Import cost\<close>

lemma importCost_plain_valid:
  "- 100 < m \<Longrightarrow> calculateImportCost_plain (num r) (num m) = num (r / (1 + m / 100))"
  using markup_divisor_pos [of m] by (simp add: calculateImportCost_plain_def js_ops)

lemma importCost_defensive_valid:
  "0 < r \<Longrightarrow> - 100 < m \<Longrightarrow>
   calculateImportCost_defensive (num r) (num m) = num (r / (1 + m / 100))"
  using markup_divisor_pos [of m] by (simp add: calculateImportCost_defensive_def js_ops)

lemma importCost_defensive_invalid:
  "r \<le> 0 \<or> m \<le> - 100 \<Longrightarrow> calculateImportCost_defensive (num r) (num m) = num 0"
  by (auto simp add: calculateImportCost_defensive_def js_ops)

text \<open>
  C2, as the code has it. For a positive retail price and a markup above -100 both copies
  return \<open>retailPrice / (1 + markupPercent / 100)\<close>. Outside that range the defensive
  copy returns the number 0: the function has no error to report, its result is a value.
\<close>

theorem import_cost_valid_and_guarded:
  "(0 < r \<and> - 100 < m \<longrightarrow>
      calculateImportCost_plain (num r) (num m) = num (r / (1 + m / 100))
    \<and> calculateImportCost_defensive (num r) (num m) = num (r / (1 + m / 100)))
 \<and> (r \<le> 0 \<or> m \<le> - 100 \<longrightarrow> calculateImportCost_defensive (num r) (num m) = num 0)"
  by (simp add: importCost_plain_valid importCost_defensive_valid importCost_defensive_invalid)

theorem import_cost_valid_and_guarded_witness:
  "calculateImportCost_plain (num 100) (num 50) = num (200 / 3)
 \<and> calculateImportCost_defensive (num 100) (num 50) = num (200 / 3)
 \<and> calculateImportCost_defensive (num 0) (num 50) = num 0
 \<and> calculateImportCost_defensive (num 100) (num (- 100)) = num 0"
  using import_cost_valid_and_guarded [of 100 50] import_cost_valid_and_guarded [of 0 50]
    import_cost_valid_and_guarded [of 100 "- 100"]
  by simp

text \<open>
  C2 as stated fails: at a markup of -100 the defensive copy returns a silent 0 and the
  plain copy returns \<open>Infinity\<close>; at a retail price of 0 the defensive copy returns 0
  and nothing else; the plain copy returns a negative cost for a negative price.
\<close>

theorem import_cost_silent_zero:
  "calculateImportCost_defensive (num 100) (num (- 100)) = num 0
 \<and> calculateImportCost_plain (num 100) (num (- 100)) = VNum PosInf
 \<and> calculateImportCost_defensive (num 0) (num 50) = num 0
 \<and> calculateImportCost_plain (num (- 50)) (num 0) = num (- 50)"
  by (simp add: calculateImportCost_defensive_def calculateImportCost_plain_def js_ops)



section \<open>Pass-through derivation\<close>

text \<open>The formula on a finite pair whose denominator is not zero is the real quotient.\<close>

lemma pass_through_formula:
  "s + \<bar>d\<bar> \<noteq> 0 \<Longrightarrow>
   js_mul (js_div (num s) (js_add (num s) (math_abs (num d)))) (num 100)
     = num (s / (s + \<bar>d\<bar>) * 100)"
  by (simp add: js_ops)


text \<open>
  C1, as the code has it. \<open>p\<close> is a product with an elasticity pair of finite numbers
  whose denominator \<open>supply + |demand|\<close> is not zero, \<open>a\<close> a product of the API with
  two non-zero elasticities, \<open>q\<close> a product with no elasticity data. The calculator's
  \<^verbatim>\<open>calculatedPassThrough\<close> is 75 without a product and for \<open>q\<close>, and the formula
  \<open>supply / (supply + |demand|) * 100\<close> for \<open>p\<close> and \<open>a\<close>. \<^verbatim>\<open>calculatePassThrough\<close> of
  \<^verbatim>\<open>calculations.js\<close> is the same formula for \<open>p\<close>, but 0, not 75, without a product
  (both copies) and for \<open>q\<close> (defensive copy).
\<close>

theorem pass_through_default_and_formula:
  assumes "elasticity p = Some \<lparr>demand = num d, supply = num s\<rparr>"
      and "\<not> (truthy (demand_elasticity p) \<and> truthy (supply_elasticity p))"
      and "s + \<bar>d\<bar> \<noteq> 0"
      and "demand_elasticity a = num d'" and "supply_elasticity a = num s'"
      and "d' \<noteq> 0" and "s' \<noteq> 0" and "s' + \<bar>d'\<bar> \<noteq> 0"
      and "elasticity q = None"
      and "\<not> (truthy (demand_elasticity q) \<and> truthy (supply_elasticity q))"
  shows "calculatedPassThrough None = num 75
       \<and> calculatedPassThrough (Some q) = num 75
       \<and> calculatedPassThrough (Some p) = num (s / (s + \<bar>d\<bar>) * 100)
       \<and> calculatedPassThrough (Some a) = num (s' / (s' + \<bar>d'\<bar>) * 100)
       \<and> calculatePassThrough_plain (Some p) = Inr (num (s / (s + \<bar>d\<bar>) * 100))
       \<and> calculatePassThrough_defensive (Some p) = num (s / (s + \<bar>d\<bar>) * 100)
       \<and> calculatePassThrough_plain None = Inr (num 0)
       \<and> calculatePassThrough_defensive None = num 0
       \<and> calculatePassThrough_defensive (Some q) = num 0"
  using assms pass_through_formula [of s d] pass_through_formula [of s' d']
  by (auto simp add: calculatedPassThrough_def calculatePassThrough_plain_def
      calculatePassThrough_defensive_def)

theorem pass_through_default_and_formula_witness:
  "calculatedPassThrough None = num 75
 \<and> calculatedPassThrough
      (Some \<lparr>demand_elasticity = VUndefined, supply_elasticity = VUndefined,
             elasticity = None\<rparr>) = num 75
 \<and> calculatedPassThrough
      (Some \<lparr>demand_elasticity = VUndefined, supply_elasticity = VUndefined,
             elasticity = Some \<lparr>demand = num (- 2), supply = num (3 / 2)\<rparr>\<rparr>) = num (300 / 7)
 \<and> calculatedPassThrough
      (Some \<lparr>demand_elasticity = num (- 3), supply_elasticity = num 2,
             elasticity = None\<rparr>) = num 40
 \<and> calculatePassThrough_plain
      (Some \<lparr>demand_elasticity = VUndefined, supply_elasticity = VUndefined,
             elasticity = Some \<lparr>demand = num (- 2), supply = num (3 / 2)\<rparr>\<rparr>)
      = Inr (num (300 / 7))
 \<and> calculatePassThrough_defensive
      (Some \<lparr>demand_elasticity = VUndefined, supply_elasticity = VUndefined,
             elasticity = Some \<lparr>demand = num (- 2), supply = num (3 / 2)\<rparr>\<rparr>)
      = num (300 / 7)
 \<and> calculatePassThrough_defensive
      (Some \<lparr>demand_elasticity = VUndefined, supply_elasticity = VUndefined,
             elasticity = None\<rparr>) = num 0"
  using pass_through_default_and_formula
    [of "\<lparr>demand_elasticity = VUndefined, supply_elasticity = VUndefined,
          elasticity = Some \<lparr>demand = num (- 2), supply = num (3 / 2)\<rparr>\<rparr>"
        "- 2" "3 / 2"
        "\<lparr>demand_elasticity = num (- 3), supply_elasticity = num 2, elasticity = None\<rparr>"
        "- 3" 2
        "\<lparr>demand_elasticity = VUndefined, supply_elasticity = VUndefined,
          elasticity = None\<rparr>"]
  by simp

text \<open>
  C1 as stated fails on \<^verbatim>\<open>calculatePassThrough\<close>: without a product both copies
  return 0, and that is not the default 75.
\<close>

theorem calculatePassThrough_no_product_is_zero:
  "calculatePassThrough_plain None = Inr (num 0)
 \<and> calculatePassThrough_defensive None = num 0
 \<and> num 0 \<noteq> num 75"
  by (simp add: calculatePassThrough_plain_def calculatePassThrough_defensive_def)

text \<open>
  C3: with a supply elasticity and a demand elasticity of zero the derivation must fail
  with an error and never return \<open>NaN\<close>. The code does neither: for the pair
  \<open>{demand: 0, supply: 0}\<close> both copies of \<^verbatim>\<open>calculatePassThrough\<close>, in exact and
  in double arithmetic, and the derivation of the calculator return \<open>NaN\<close>, outside
  the range 0 to 100 that the function documents.
\<close>

theorem zero_elasticity_returns_nan:
  "calculatePassThrough_plain
      (Some \<lparr>demand_elasticity = VUndefined, supply_elasticity = VUndefined,
             elasticity = Some \<lparr>demand = num 0, supply = num 0\<rparr>\<rparr>) = Inr (VNum NaN)
 \<and> calculatePassThrough_defensive
      (Some \<lparr>demand_elasticity = VUndefined, supply_elasticity = VUndefined,
             elasticity = Some \<lparr>demand = num 0, supply = num 0\<rparr>\<rparr>) = VNum NaN
 \<and> calculatePassThrough_plain_ieee
      (Some \<lparr>demand_elasticity = VUndefined, supply_elasticity = VUndefined,
             elasticity = Some \<lparr>demand = num 0, supply = num 0\<rparr>\<rparr>) = Inr (VNum NaN)
 \<and> calculatePassThrough_defensive_ieee
      (Some \<lparr>demand_elasticity = VUndefined, supply_elasticity = VUndefined,
             elasticity = Some \<lparr>demand = num 0, supply = num 0\<rparr>\<rparr>) = VNum NaN
 \<and> calculatedPassThrough
      (Some \<lparr>demand_elasticity = VUndefined, supply_elasticity = VUndefined,
             elasticity = Some \<lparr>demand = num 0, supply = num 0\<rparr>\<rparr>) = VNum NaN"
  by (simp add: calculatePassThrough_plain_def calculatePassThrough_defensive_def
      calculatePassThrough_plain_ieee_def calculatePassThrough_defensive_ieee_def
      calculatedPassThrough_def js_ops dbl_ops round_double_0)

theorem zero_elasticity_returns_nan_witness:
  "\<not> (\<exists>x. calculatePassThrough_plain
        (Some \<lparr>demand_elasticity = VUndefined, supply_elasticity = VUndefined,
               elasticity = Some \<lparr>demand = num 0, supply = num 0\<rparr>\<rparr>) = Inr (num x))
 \<and> \<not> (\<exists>x. calculatePassThrough_defensive
        (Some \<lparr>demand_elasticity = VUndefined, supply_elasticity = VUndefined,
               elasticity = Some \<lparr>demand = num 0, supply = num 0\<rparr>\<rparr>) = num x)
 \<and> \<not> (\<exists>x. calculatePassThrough_plain_ieee
        (Some \<lparr>demand_elasticity = VUndefined, supply_elasticity = VUndefined,
               elasticity = Some \<lparr>demand = num 0, supply = num 0\<rparr>\<rparr>) = Inr (num x))
 \<and> \<not> (\<exists>x. calculatePassThrough_defensive_ieee
        (Some \<lparr>demand_elasticity = VUndefined, supply_elasticity = VUndefined,
               elasticity = Some \<lparr>demand = num 0, supply = num 0\<rparr>\<rparr>) = num x)"
  using zero_elasticity_returns_nan by simp

text \<open>
  C9, as the code has it. In double arithmetic, for every elasticity pair with a supply
  above 0 and a demand below 0, the rate that \<^verbatim>\<open>calculatePassThrough\<close> derives is a
  finite number of the closed interval from 0 to 100, in both copies.
\<close>

theorem pass_through_closed_bounds:
  assumes "is_double s" and "0 < s" and "d < 0"
      and "elasticity p = Some \<lparr>demand = num d, supply = num s\<rparr>"
  shows "\<exists>x. calculatePassThrough_plain_ieee (Some p) = Inr (num x)
           \<and> calculatePassThrough_defensive_ieee (Some p) = num x
           \<and> 0 \<le> x \<and> x \<le> 100"
  using assms(4) pass_through_ieee_bounds [OF assms(1-3)]
  by (auto simp add: calculatePassThrough_plain_ieee_def calculatePassThrough_defensive_ieee_def)

theorem pass_through_closed_bounds_witness:
  "is_double 2
 \<and> (\<exists>x. calculatePassThrough_plain_ieee
        (Some \<lparr>demand_elasticity = VUndefined, supply_elasticity = VUndefined,
               elasticity = Some \<lparr>demand = num (- 3), supply = num 2\<rparr>\<rparr>) = Inr (num x)
      \<and> calculatePassThrough_defensive_ieee
        (Some \<lparr>demand_elasticity = VUndefined, supply_elasticity = VUndefined,
               elasticity = Some \<lparr>demand = num (- 3), supply = num 2\<rparr>\<rparr>) = num x
      \<and> 0 \<le> x \<and> x \<le> 100)"
  using is_double_2 pass_through_closed_bounds
    [of 2 "- 3" "\<lparr>demand_elasticity = VUndefined, supply_elasticity = VUndefined,
                   elasticity = Some \<lparr>demand = num (- 3), supply = num 2\<rparr>\<rparr>"]
  by simp

text \<open>
  C9 as stated fails: both bounds are attained. With a supply of 1 and a demand of
  \<open>-2^-60\<close> the sum \<open>1 + 2^-60\<close> rounds to 1 and the rate is exactly 100. With a
  supply of \<open>2^1023\<close> and a demand of \<open>-2^1023\<close> the sum overflows to \<open>Infinity\<close>
  and the rate is exactly 0.
\<close>

theorem pass_through_bounds_attained:
  "is_double 1 \<and> is_double (- (1 / 2 ^ 60))
 \<and> calculatePassThrough_plain_ieee
      (Some \<lparr>demand_elasticity = VUndefined, supply_elasticity = VUndefined,
             elasticity = Some \<lparr>demand = num (- (1 / 2 ^ 60)), supply = num 1\<rparr>\<rparr>)
      = Inr (num 100)
 \<and> calculatePassThrough_defensive_ieee
      (Some \<lparr>demand_elasticity = VUndefined, supply_elasticity = VUndefined,
             elasticity = Some \<lparr>demand = num (- (1 / 2 ^ 60)), supply = num 1\<rparr>\<rparr>)
      = num 100
 \<and> is_double (2 ^ 1023) \<and> is_double (- (2 ^ 1023))
 \<and> calculatePassThrough_plain_ieee
      (Some \<lparr>demand_elasticity = VUndefined, supply_elasticity = VUndefined,
             elasticity = Some \<lparr>demand = num (- (2 ^ 1023)), supply = num (2 ^ 1023)\<rparr>\<rparr>)
      = Inr (num 0)
 \<and> calculatePassThrough_defensive_ieee
      (Some \<lparr>demand_elasticity = VUndefined, supply_elasticity = VUndefined,
             elasticity = Some \<lparr>demand = num (- (2 ^ 1023)), supply = num (2 ^ 1023)\<rparr>\<rparr>)
      = num 0"
proof -
  have "(2::real) * 2 ^ 1023 = 2 ^ 1024" by simp
  then have big: "round_double (2 * 2 ^ 1023) = PosInf"
    using round_double_overflow by (simp del: power_numeral)
  show ?thesis
    using is_double_1 is_double_tiny is_double_max_binade
    by (simp add: calculatePassThrough_plain_ieee_def calculatePassThrough_defensive_ieee_def
        dbl_ops math_abs_def is_double_minus round_double_near_1 big round_double_1 round_double_100 round_double_0
        del: power_numeral)
qed

section \<open>Consumer pass-through, effective tax rate and inventory\<close>

text \<open>
  C6, as the code has it. For a tariff amount of at least 0 the defensive copy of
  \<^verbatim>\<open>calculateTariffPassed\<close> clamps the rate to [0, 100] before it applies it; the plain
  copy applies the rate as it is given. At a rate of 100 both return the tariff amount.
\<close>

theorem tariff_passed_clamping:
  "(0 \<le> ta \<longrightarrow>
      calculateTariffPassed_defensive (num ta) (num p) = num (ta * (max 0 (min 100 p) / 100))
    \<and> calculateTariffPassed_defensive (num ta) (num 100) = num ta)
 \<and> calculateTariffPassed_plain (num ta) (num p) = num (ta * (p / 100))
 \<and> calculateTariffPassed_plain (num ta) (num 100) = num ta"
  by (simp add: calculateTariffPassed_defensive_def calculateTariffPassed_plain_def clamp_real)
    (simp add: js_ops)

theorem tariff_passed_clamping_witness:
  "calculateTariffPassed_defensive (num 10) (num 150) = num 10
 \<and> calculateTariffPassed_defensive (num 10) (num 100) = num 10
 \<and> calculateTariffPassed_plain (num 10) (num 150) = num 15
 \<and> calculateTariffPassed_plain (num 10) (num 100) = num 10"
  using tariff_passed_clamping [of 10 150] by simp

text \<open>
  C6 as stated fails on the plain copy: a rate of 150 is applied unclamped, and 10 dollars
  of tariff pass 15 dollars on, where the clamped formula gives 10.
\<close>

theorem tariff_passed_plain_unclamped:
  "calculateTariffPassed_plain (num 10) (num 150) = num 15
 \<and> calculateTariffPassed_plain (num 10) (num 150) \<noteq> num (10 * (max 0 (min 100 150) / 100))"
  by (simp add: calculateTariffPassed_plain_def js_ops)

text \<open>
  C7, as the code has it. For a price increase of at least 0 the defensive copy of
  \<^verbatim>\<open>calculateInventoryImpact\<close> clamps the months to [0, 12]; the plain copy uses the
  months as they are given. In both, 0 months give the full increase and 12 months give 0.
\<close>

theorem inventory_impact_clamping:
  "(0 \<le> inc \<longrightarrow>
      calculateInventoryImpact_defensive (num mo) (num inc)
        = num (inc * (1 - max 0 (min 12 mo) / 12))
    \<and> calculateInventoryImpact_defensive (num 0) (num inc) = num inc
    \<and> calculateInventoryImpact_defensive (num 12) (num inc) = num 0)
 \<and> calculateInventoryImpact_plain (num mo) (num inc) = num (inc * (1 - mo / 12))
 \<and> calculateInventoryImpact_plain (num 0) (num inc) = num inc
 \<and> calculateInventoryImpact_plain (num 12) (num inc) = num 0"
  by (simp add: calculateInventoryImpact_defensive_def calculateInventoryImpact_plain_def
      clamp_real)
    (simp add: js_ops)

theorem inventory_impact_clamping_witness:
  "calculateInventoryImpact_defensive (num 24) (num 10) = num 0
 \<and> calculateInventoryImpact_defensive (num 0) (num 10) = num 10
 \<and> calculateInventoryImpact_defensive (num 12) (num 10) = num 0
 \<and> calculateInventoryImpact_plain (num 24) (num 10) = num (- 10)"
  using inventory_impact_clamping [of 10 24] by simp

text \<open>
  C7 as stated fails on the plain copy: 24 months of buffer are not clamped to 12, and
  an increase of 10 dollars becomes -10, where the clamped formula gives 0.
\<close>

theorem inventory_impact_plain_unclamped:
  "calculateInventoryImpact_plain (num 24) (num 10) = num (- 10)
 \<and> calculateInventoryImpact_plain (num 24) (num 10)
      \<noteq> num (10 * (1 - max 0 (min 12 24) / 12))"
  by (simp add: calculateInventoryImpact_plain_def js_ops)

text \<open>
  C8, as the code has it, on finite numbers. The plain copy of
  \<^verbatim>\<open>calculateTariffTaxPercentage\<close> returns \<open>tariffPassed / futurePrice * 100\<close> when the
  future price is above 0 and 0 otherwise. The defensive copy returns the quotient when
  the future price is above 0 and the tariff passed is at least 0, and 0 otherwise. This
  holds in exact and in double arithmetic. The division is guarded: for every future
  price that compares as at most 0, each copy returns 0 and does not divide.
\<close>

theorem tariff_tax_percentage_guarded:
  "(0 < f \<longrightarrow> calculateTariffTaxPercentage_plain (num t) (num f) = num (t / f * 100))
 \<and> (f \<le> 0 \<longrightarrow> calculateTariffTaxPercentage_plain (num t) (num f) = num 0)
 \<and> (0 < f \<and> 0 \<le> t \<longrightarrow>
      calculateTariffTaxPercentage_defensive (num t) (num f) = num (t / f * 100))
 \<and> (f \<le> 0 \<or> t < 0 \<longrightarrow> calculateTariffTaxPercentage_defensive (num t) (num f) = num 0)
 \<and> (0 < f \<longrightarrow>
      calculateTariffTaxPercentage_plain_ieee (num t) (num f)
        = dbl_mul (dbl_div (num t) (num f)) (num 100))
 \<and> (f \<le> 0 \<longrightarrow> calculateTariffTaxPercentage_plain_ieee (num t) (num f) = num 0)
 \<and> (0 < f \<and> 0 \<le> t \<longrightarrow>
      calculateTariffTaxPercentage_defensive_ieee (num t) (num f)
        = dbl_mul (dbl_div (num t) (num f)) (num 100))
 \<and> (f \<le> 0 \<or> t < 0 \<longrightarrow> calculateTariffTaxPercentage_defensive_ieee (num t) (num f) = num 0)
 \<and> (js_le fp (num 0) \<longrightarrow>
      calculateTariffTaxPercentage_plain tp fp = num 0
    \<and> calculateTariffTaxPercentage_defensive tp fp = num 0
    \<and> calculateTariffTaxPercentage_plain_ieee tp fp = num 0
    \<and> calculateTariffTaxPercentage_defensive_ieee tp fp = num 0)"
proof -
  have guard: "js_le fp (num 0) \<Longrightarrow> \<not> js_gt fp (num 0)"
    using num_le_not_lt [of "to_number fp" "Fin 0"] by (simp add: js_le_def js_gt_def)
  show ?thesis
    using guard
    by (auto simp add: calculateTariffTaxPercentage_plain_def
        calculateTariffTaxPercentage_defensive_def calculateTariffTaxPercentage_plain_ieee_def
        calculateTariffTaxPercentage_defensive_ieee_def js_ops)
qed

theorem tariff_tax_percentage_guarded_witness:
  "calculateTariffTaxPercentage_plain (num (25 / 2)) (num (225 / 2)) = num (100 / 9)
 \<and> calculateTariffTaxPercentage_defensive (num (25 / 2)) (num (225 / 2)) = num (100 / 9)
 \<and> calculateTariffTaxPercentage_plain (num 5) (num 0) = num 0
 \<and> calculateTariffTaxPercentage_defensive (num 5) (num 0) = num 0
 \<and> calculateTariffTaxPercentage_defensive (num (- 5)) (num 100) = num 0
 \<and> calculateTariffTaxPercentage_plain_ieee (num 5) (num 0) = num 0
 \<and> calculateTariffTaxPercentage_defensive_ieee (num 5) (num 0) = num 0
 \<and> calculateTariffTaxPercentage_defensive_ieee (num (- 5)) (num 100) = num 0
 \<and> calculateTariffTaxPercentage_plain VNull (num (- 1)) = num 0"
  using tariff_tax_percentage_guarded [of "225 / 2" "25 / 2" "num 0" "num 5"]
    tariff_tax_percentage_guarded [of 0 5 "num (- 1)" VNull]
    tariff_tax_percentage_guarded [of 100 "- 5" "num 0" "num 5"]
  by (simp add: js_le_def)

text \<open>
  C8 as stated fails on the defensive copy: with a future price of 100 and a tariff
  passed of -5 it returns 0, not the quotient -5.
\<close>

theorem tariff_tax_percentage_negative_passed:
  "calculateTariffTaxPercentage_defensive (num (- 5)) (num 100) = num 0
 \<and> calculateTariffTaxPercentage_defensive (num (- 5)) (num 100) \<noteq> num (- 5 / 100 * 100)"
  by (simp add: calculateTariffTaxPercentage_defensive_def js_ops)

section \<open>The composed pipeline\<close>

text \<open>The import cost of a valid input in double arithmetic: not negative, or overflown.\<close>

lemma importCost_ieee_cases:
  assumes "0 < r" and "- 100 < m"
  shows "calculateImportCost_plain_ieee (num r) (num m) = VNum PosInf
       \<or> (\<exists>c. calculateImportCost_plain_ieee (num r) (num m) = num c \<and> 0 \<le> c)"
proof -
  have a: "round_double (m / 100) = PosInf \<or> (\<exists>a. round_double (m / 100) = Fin a \<and> - 1 \<le> a)"
  proof (cases "0 \<le> m")
    case True
    then show ?thesis using round_double_nonneg [of "m / 100"] by auto
  next
    case False
    then have "\<bar>m / 100\<bar> \<le> \<bar>1\<bar>" and "m / 100 \<le> 0" using assms(2) by simp_all
    with round_double_abs_le [OF is_double_1, of "m / 100"]
    show ?thesis by auto
  qed
  have b: "rnd (num_add (Fin 1) (round_double (m / 100))) = PosInf
         \<or> (\<exists>b. rnd (num_add (Fin 1) (round_double (m / 100))) = Fin b \<and> 0 \<le> b)"
    using a
  proof
    assume "round_double (m / 100) = PosInf"
    then show ?thesis by simp
  next
    assume "\<exists>a. round_double (m / 100) = Fin a \<and> - 1 \<le> a"
    then obtain a where "round_double (m / 100) = Fin a" and "0 \<le> 1 + a" by auto
    then show ?thesis using round_double_nonneg [of "1 + a"] by simp
  qed
  have c: "rnd (num_div (Fin r) (rnd (num_add (Fin 1) (round_double (m / 100))))) = PosInf
         \<or> (\<exists>c. rnd (num_div (Fin r) (rnd (num_add (Fin 1) (round_double (m / 100))))) = Fin c
               \<and> 0 \<le> c)"
    using b
  proof
    assume "rnd (num_add (Fin 1) (round_double (m / 100))) = PosInf"
    then show ?thesis by (simp add: round_double_0)
  next
    assume "\<exists>b. rnd (num_add (Fin 1) (round_double (m / 100))) = Fin b \<and> 0 \<le> b"
    then obtain b where b: "rnd (num_add (Fin 1) (round_double (m / 100))) = Fin b" "0 \<le> b"
      by auto
    show ?thesis
    proof (cases "b = 0")
      case True
      then show ?thesis using b(1) assms(1) by (simp add: signed_inf_def)
    next
      case False
      then have "0 \<le> r / b" using b(2) assms(1) by simp
      then show ?thesis using b(1) False round_double_nonneg [of "r / b"] by simp
    qed
  qed
  then show ?thesis by (simp add: calculateImportCost_plain_ieee_def dbl_ops)
qed

lemma importCost_ieee_agree:
  "0 < r \<Longrightarrow> - 100 < m \<Longrightarrow>
   calculateImportCost_defensive_ieee (num r) (num m) = calculateImportCost_plain_ieee (num r) (num m)"
  by (simp add: calculateImportCost_defensive_ieee_def calculateImportCost_plain_ieee_def js_le_def)

lemma tariffAmount_ieee_zero_rate:
  "calculateTariffAmount_plain_ieee (num c) (num 0) = num 0"
  "0 \<le> c \<Longrightarrow> calculateTariffAmount_defensive_ieee (num c) (num 0) = num 0"
  by (simp_all add: calculateTariffAmount_plain_ieee_def calculateTariffAmount_defensive_ieee_def
      dbl_ops js_lt_def round_double_0)

lemma tariffPassed_ieee_zero_amount:
  "is_double p \<Longrightarrow> calculateTariffPassed_plain_ieee (num 0) (num p) = num 0"
  "calculateTariffPassed_defensive_ieee (num 0) (num p) = num 0"
proof -
  assume p: "is_double p"
  have "\<bar>p / 100\<bar> \<le> \<bar>p\<bar>" by simp
  with round_double_abs_le [OF p, of "p / 100"]
  obtain k where "round_double (p / 100) = Fin k" by auto
  then show "calculateTariffPassed_plain_ieee (num 0) (num p) = num 0"
    by (simp add: calculateTariffPassed_plain_ieee_def dbl_ops round_double_0)
next
  have "\<bar>max 0 (min 100 p) / 100\<bar> \<le> \<bar>1\<bar>" by (simp add: max_def min_def)
  with round_double_abs_le [OF is_double_1, of "max 0 (min 100 p) / 100"]
  obtain k where "round_double (max 0 (min 100 p) / 100) = Fin k" by auto
  then show "calculateTariffPassed_defensive_ieee (num 0) (num p) = num 0"
    by (simp add: calculateTariffPassed_defensive_ieee_def clamp_real dbl_ops js_lt_def
        round_double_0)
qed

lemma futurePrice_ieee_zero_passed:
  "is_double r \<Longrightarrow> calculateFuturePrice_plain_ieee (num r) (num 0) = num r"
  "is_double r \<Longrightarrow> 0 < r \<Longrightarrow> calculateFuturePrice_defensive_ieee (num r) (num 0) = num r"
  by (simp_all add: calculateFuturePrice_plain_ieee_def calculateFuturePrice_defensive_ieee_def
      dbl_ops js_lt_def is_double_def)

lemma tariffTaxPercentage_ieee_zero_passed:
  "0 < r \<Longrightarrow> calculateTariffTaxPercentage_plain_ieee (num 0) (num r) = num 0"
  "0 < r \<Longrightarrow> calculateTariffTaxPercentage_defensive_ieee (num 0) (num r) = num 0"
  by (simp_all add: calculateTariffTaxPercentage_plain_ieee_def
      calculateTariffTaxPercentage_defensive_ieee_def dbl_ops js_lt_def js_le_def js_gt_def
      round_double_0)

text \<open>
  C4, as the code has it: the zero-tariff identity in double arithmetic. For a retail
  price above 0, a markup above -100 and a tariff rate of 0, with any pass-through rate and
  inventory buffer, whenever the import cost is a finite number (the division did not
  overflow), the pipeline of the calculator yields a tariff amount of 0, a tariff passed
  of 0, a future price equal to the retail price and a tariff tax percentage of 0, with
  either copy of the engine.
\<close>

theorem zero_tariff_identity_finite_import_cost:
  fixes r m p b :: real
  assumes "is_double r" and "is_double p" and "0 < r" and "- 100 < m"
  defines "s \<equiv> \<lparr>retailPrice = num r, retailMarkup = num m, tariffRate = num 0,
                 customPassThrough = num p, inventoryBuffer = num b\<rparr>"
  assumes "\<exists>c. importCost (calculations_plain_ieee s) = num c"
  shows "tariffAmount (calculations_plain_ieee s) = num 0
       \<and> tariffPassed (calculations_plain_ieee s) = num 0
       \<and> futurePrice (calculations_plain_ieee s) = num r
       \<and> tariffTaxPct (calculations_plain_ieee s) = num 0
       \<and> tariffAmount (calculations_defensive_ieee s) = num 0
       \<and> tariffPassed (calculations_defensive_ieee s) = num 0
       \<and> futurePrice (calculations_defensive_ieee s) = num r
       \<and> tariffTaxPct (calculations_defensive_ieee s) = num 0"
proof -
  from assms(6) obtain c where "calculateImportCost_plain_ieee (num r) (num m) = num c"
    by (auto simp add: s_def calculations_plain_ieee_def Let_def)
  with importCost_ieee_cases [OF assms(3,4)]
  have c: "calculateImportCost_plain_ieee (num r) (num m) = num c" "0 \<le> c"
    by auto
  show ?thesis
    using assms(1-4) c
    by (simp add: s_def calculations_plain_ieee_def calculations_defensive_ieee_def Let_def
        importCost_ieee_agree tariffAmount_ieee_zero_rate tariffPassed_ieee_zero_amount
        futurePrice_ieee_zero_passed tariffTaxPercentage_ieee_zero_passed)
qed

theorem zero_tariff_identity_finite_import_cost_witness:
  "is_double 150 \<and> is_double 75
 \<and> importCost (calculations_plain_ieee
     \<lparr>retailPrice = num 150, retailMarkup = num 50, tariffRate = num 0,
      customPassThrough = num 75, inventoryBuffer = num 3\<rparr>) = num 100
 \<and> tariffAmount (calculations_plain_ieee
     \<lparr>retailPrice = num 150, retailMarkup = num 50, tariffRate = num 0,
      customPassThrough = num 75, inventoryBuffer = num 3\<rparr>) = num 0
 \<and> tariffPassed (calculations_plain_ieee
     \<lparr>retailPrice = num 150, retailMarkup = num 50, tariffRate = num 0,
      customPassThrough = num 75, inventoryBuffer = num 3\<rparr>) = num 0
 \<and> futurePrice (calculations_plain_ieee
     \<lparr>retailPrice = num 150, retailMarkup = num 50, tariffRate = num 0,
      customPassThrough = num 75, inventoryBuffer = num 3\<rparr>) = num 150
 \<and> tariffTaxPct (calculations_plain_ieee
     \<lparr>retailPrice = num 150, retailMarkup = num 50, tariffRate = num 0,
      customPassThrough = num 75, inventoryBuffer = num 3\<rparr>) = num 0
 \<and> tariffAmount (calculations_defensive_ieee
     \<lparr>retailPrice = num 150, retailMarkup = num 50, tariffRate = num 0,
      customPassThrough = num 75, inventoryBuffer = num 3\<rparr>) = num 0
 \<and> tariffPassed (calculations_defensive_ieee
     \<lparr>retailPrice = num 150, retailMarkup = num 50, tariffRate = num 0,
      customPassThrough = num 75, inventoryBuffer = num 3\<rparr>) = num 0
 \<and> futurePrice (calculations_defensive_ieee
     \<lparr>retailPrice = num 150, retailMarkup = num 50, tariffRate = num 0,
      customPassThrough = num 75, inventoryBuffer = num 3\<rparr>) = num 150
 \<and> tariffTaxPct (calculations_defensive_ieee
     \<lparr>retailPrice = num 150, retailMarkup = num 50, tariffRate = num 0,
      customPassThrough = num 75, inventoryBuffer = num 3\<rparr>) = num 0"
proof -
  have cost: "importCost (calculations_plain_ieee
     \<lparr>retailPrice = num 150, retailMarkup = num 50, tariffRate = num 0,
      customPassThrough = num 75, inventoryBuffer = num 3\<rparr>) = num 100"
    using is_double_100
    by (simp add: calculations_plain_ieee_def Let_def calculateImportCost_plain_ieee_def
        dbl_ops round_double_half round_double_3_2 is_double_def)
  show ?thesis
    using cost is_double_150 is_double_75
      zero_tariff_identity_finite_import_cost [of 150 75 50 3]
    by simp
qed

text \<open>
  C4 as stated fails: with a retail price of \<open>2^1023\<close> and a markup of -50 the import
  cost \<open>2^1023 / 0.5\<close> overflows to \<open>Infinity\<close>, and \<open>Infinity * 0\<close> is \<open>NaN\<close>:
  the tariff amount, the tariff passed and the future price are \<open>NaN\<close>, not 0, 0 and
  the retail price.
\<close>

theorem zero_tariff_overflow:
  "is_double (2 ^ 1023) \<and> is_double (- 50) \<and> is_double 75 \<and> (0::real) < 2 ^ 1023
 \<and> importCost (calculations_plain_ieee
     \<lparr>retailPrice = num (2 ^ 1023), retailMarkup = num (- 50), tariffRate = num 0,
      customPassThrough = num 75, inventoryBuffer = num 3\<rparr>) = VNum PosInf
 \<and> tariffAmount (calculations_plain_ieee
     \<lparr>retailPrice = num (2 ^ 1023), retailMarkup = num (- 50), tariffRate = num 0,
      customPassThrough = num 75, inventoryBuffer = num 3\<rparr>) = VNum NaN
 \<and> tariffPassed (calculations_plain_ieee
     \<lparr>retailPrice = num (2 ^ 1023), retailMarkup = num (- 50), tariffRate = num 0,
      customPassThrough = num 75, inventoryBuffer = num 3\<rparr>) = VNum NaN
 \<and> futurePrice (calculations_plain_ieee
     \<lparr>retailPrice = num (2 ^ 1023), retailMarkup = num (- 50), tariffRate = num 0,
      customPassThrough = num 75, inventoryBuffer = num 3\<rparr>) = VNum NaN
 \<and> tariffAmount (calculations_defensive_ieee
     \<lparr>retailPrice = num (2 ^ 1023), retailMarkup = num (- 50), tariffRate = num 0,
      customPassThrough = num 75, inventoryBuffer = num 3\<rparr>) = VNum NaN
 \<and> tariffPassed (calculations_defensive_ieee
     \<lparr>retailPrice = num (2 ^ 1023), retailMarkup = num (- 50), tariffRate = num 0,
      customPassThrough = num 75, inventoryBuffer = num 3\<rparr>) = VNum NaN
 \<and> futurePrice (calculations_defensive_ieee
     \<lparr>retailPrice = num (2 ^ 1023), retailMarkup = num (- 50), tariffRate = num 0,
      customPassThrough = num 75, inventoryBuffer = num 3\<rparr>) = VNum NaN
 \<and> tariffTaxPct (calculations_defensive_ieee
     \<lparr>retailPrice = num (2 ^ 1023), retailMarkup = num (- 50), tariffRate = num 0,
      customPassThrough = num 75, inventoryBuffer = num 3\<rparr>) = VNum NaN"
proof -
  have "(2::real) ^ 1023 * 2 = 2 ^ 1024" by simp
  then have big: "round_double (2 ^ 1023 * 2) = PosInf"
    using round_double_overflow by (simp del: power_numeral)
  have cost: "calculateImportCost_plain_ieee (num (2 ^ 1023)) (num (- 50)) = VNum PosInf"
    by (simp add: calculateImportCost_plain_ieee_def dbl_ops round_double_minus_half
        round_double_half big del: power_numeral)
  have cost': "calculateImportCost_defensive_ieee (num (2 ^ 1023)) (num (- 50)) = VNum PosInf"
    using importCost_ieee_agree [of "2 ^ 1023" "- 50"] cost by simp
  show ?thesis
    using is_double_max_binade is_double_50 is_double_75
    by (simp add: calculations_plain_ieee_def calculations_defensive_ieee_def Let_def cost cost'
        calculateTariffAmount_plain_ieee_def calculateTariffAmount_defensive_ieee_def
        calculateTariffPassed_plain_ieee_def calculateTariffPassed_defensive_ieee_def
        calculateFuturePrice_plain_ieee_def calculateFuturePrice_defensive_ieee_def
        calculateTariffTaxPercentage_defensive_ieee_def
        dbl_ops js_lt_def js_le_def math_max_def math_min_def round_double_0 is_double_minus
        del: power_numeral)
qed

section \<open>The two copies agree on valid inputs\<close>

lemma importCost_agree:
  assumes "js_gt (VNum r) (num 0)" and "js_gt (VNum m) (num (- 100))"
  shows "calculateImportCost_defensive (VNum r) (VNum m)
       = calculateImportCost_plain (VNum r) (VNum m)"
  using assms num_lt_not_le [of "Fin 0" r] num_lt_not_le [of "Fin (- 100)" m]
  by (simp add: calculateImportCost_defensive_def calculateImportCost_plain_def
      js_gt_def js_le_def)

lemma tariffAmount_agree:
  assumes "js_le (num 0) (VNum ic)" and "js_le (num 0) (VNum tr)"
  shows "calculateTariffAmount_defensive (VNum ic) (VNum tr)
       = calculateTariffAmount_plain (VNum ic) (VNum tr)"
  using assms num_le_not_lt [of "Fin 0" ic] num_le_not_lt [of "Fin 0" tr]
  by (simp add: calculateTariffAmount_defensive_def calculateTariffAmount_plain_def
      js_lt_def js_le_def)

lemma tariffPassed_agree:
  assumes "js_le (num 0) (VNum ta)"
      and "js_le (num 0) (VNum pt)" and "js_le (VNum pt) (num 100)"
  shows "calculateTariffPassed_defensive (VNum ta) (VNum pt)
       = calculateTariffPassed_plain (VNum ta) (VNum pt)"
  using assms num_le_not_lt [of "Fin 0" ta] clamp_in_range [of 0 pt 100]
  by (simp add: calculateTariffPassed_defensive_def calculateTariffPassed_plain_def
      js_lt_def js_le_def math_max_def math_min_def)

lemma futurePrice_agree:
  assumes "js_gt (VNum r) (num 0)" and "js_le (num 0) (VNum tp)"
  shows "calculateFuturePrice_defensive (VNum r) (VNum tp)
       = calculateFuturePrice_plain (VNum r) (VNum tp)"
  using assms num_lt_asym [of "Fin 0" r] num_le_not_lt [of "Fin 0" tp]
  by (simp add: calculateFuturePrice_defensive_def calculateFuturePrice_plain_def
      js_lt_def js_le_def js_gt_def)

lemma tariffTaxPercentage_agree:
  assumes "js_le (num 0) (VNum tp)" and "js_gt (VNum fp) (num 0)"
  shows "calculateTariffTaxPercentage_defensive (VNum tp) (VNum fp)
       = calculateTariffTaxPercentage_plain (VNum tp) (VNum fp)"
  using assms num_lt_not_le [of "Fin 0" fp] num_le_not_lt [of "Fin 0" tp]
  by (simp add: calculateTariffTaxPercentage_defensive_def
      calculateTariffTaxPercentage_plain_def js_lt_def js_le_def js_gt_def)

lemma inventoryImpact_agree:
  assumes "js_le (num 0) (VNum ib)" and "js_le (VNum ib) (num 12)"
      and "js_le (num 0) (VNum inc)"
  shows "calculateInventoryImpact_defensive (VNum ib) (VNum inc)
       = calculateInventoryImpact_plain (VNum ib) (VNum inc)"
  using assms num_le_not_lt [of "Fin 0" inc] clamp_in_range [of 0 ib 12]
  by (simp add: calculateInventoryImpact_defensive_def calculateInventoryImpact_plain_def
      js_lt_def js_le_def math_max_def math_min_def)

text \<open>
  C10: the plain and the defensive copy of the six functions return equal values for
  every number inside the documented ranges: retail price above 0 and markup above -100;
  import cost and tariff rate at least 0; tariff amount at least 0 and pass-through rate in
  [0, 100]; retail price above 0 and tariff passed at least 0; tariff passed at least 0 and
  future price above 0; inventory months in [0, 12] and price increase at least 0. The
  numbers are any JavaScript numbers that pass the comparisons, \<open>Infinity\<close> included.
\<close>

theorem variants_agree_in_range:
  "(js_gt (VNum r) (num 0) \<and> js_gt (VNum m) (num (- 100)) \<longrightarrow>
      calculateImportCost_defensive (VNum r) (VNum m)
        = calculateImportCost_plain (VNum r) (VNum m))
 \<and> (js_le (num 0) (VNum ic) \<and> js_le (num 0) (VNum tr) \<longrightarrow>
      calculateTariffAmount_defensive (VNum ic) (VNum tr)
        = calculateTariffAmount_plain (VNum ic) (VNum tr))
 \<and> (js_le (num 0) (VNum ta) \<and> js_le (num 0) (VNum pt) \<and> js_le (VNum pt) (num 100) \<longrightarrow>
      calculateTariffPassed_defensive (VNum ta) (VNum pt)
        = calculateTariffPassed_plain (VNum ta) (VNum pt))
 \<and> (js_gt (VNum r) (num 0) \<and> js_le (num 0) (VNum tp) \<longrightarrow>
      calculateFuturePrice_defensive (VNum r) (VNum tp)
        = calculateFuturePrice_plain (VNum r) (VNum tp))
 \<and> (js_le (num 0) (VNum tp) \<and> js_gt (VNum fp) (num 0) \<longrightarrow>
      calculateTariffTaxPercentage_defensive (VNum tp) (VNum fp)
        = calculateTariffTaxPercentage_plain (VNum tp) (VNum fp))
 \<and> (js_le (num 0) (VNum ib) \<and> js_le (VNum ib) (num 12) \<and> js_le (num 0) (VNum inc) \<longrightarrow>
      calculateInventoryImpact_defensive (VNum ib) (VNum inc)
        = calculateInventoryImpact_plain (VNum ib) (VNum inc))"
  using importCost_agree tariffAmount_agree tariffPassed_agree futurePrice_agree
    tariffTaxPercentage_agree inventoryImpact_agree
  by blast

theorem variants_agree_in_range_witness:
  "calculateImportCost_defensive (num 100) (num 50) = calculateImportCost_plain (num 100) (num 50)
 \<and> calculateTariffAmount_defensive (num (200 / 3)) (num 25)
      = calculateTariffAmount_plain (num (200 / 3)) (num 25)
 \<and> calculateTariffPassed_defensive (num (50 / 3)) (num 75)
      = calculateTariffPassed_plain (num (50 / 3)) (num 75)
 \<and> calculateFuturePrice_defensive (num 100) (num (25 / 2))
      = calculateFuturePrice_plain (num 100) (num (25 / 2))
 \<and> calculateTariffTaxPercentage_defensive (num (25 / 2)) (num (225 / 2))
      = calculateTariffTaxPercentage_plain (num (25 / 2)) (num (225 / 2))
 \<and> calculateInventoryImpact_defensive (num 3) (num (25 / 2))
      = calculateInventoryImpact_plain (num 3) (num (25 / 2))"
  using variants_agree_in_range
    [where r = "Fin 100" and m = "Fin 50" and ic = "Fin (200 / 3)" and tr = "Fin 25"
       and ta = "Fin (50 / 3)" and pt = "Fin 75" and tp = "Fin (25 / 2)"
       and fp = "Fin (225 / 2)" and ib = "Fin 3" and inc = "Fin (25 / 2)"]
  by (simp add: js_gt_def js_le_def)

end
